theory Spec2Isabelle
  imports Main "HOL-Library.Char_ord" "HOL-Library.List_Lexorder" "HOL-Library.Sublist"
begin

section \<open>Role-gated retrieval pipeline: a shallow embedding\<close>

text \<open>
  The development follows four Python modules: \<^verbatim>\<open>src/rbac_config.py\<close> (the static
  role-to-documents table), \<^verbatim>\<open>src/rag_pipeline.py\<close> (\<^verbatim>\<open>format_docs_for_context\<close>,
  \<^verbatim>\<open>query_rag\<close> with its nested \<^verbatim>\<open>_get_filtered_docs\<close> and the LCEL chain),
  \<^verbatim>\<open>src/api/main.py\<close> (\<^verbatim>\<open>handle_chat_query\<close>) and \<^verbatim>\<open>src/ingest_data.py\<close>
  (\<^verbatim>\<open>ingest_data\<close>). Python strings are \<^typ>\<open>string\<close>; the external providers
  (vector store, embedding model, chat model, file loaders) are parameters of the model.
\<close>

subsection \<open>\<^verbatim>\<open>rbac_config.py\<close>\<close>

text \<open>
  \<^verbatim>\<open>os.path.join(a, b)\<close> for two components, as \<^verbatim>\<open>posixpath.join\<close> computes it:
  an absolute second component replaces the first; otherwise the components are joined
  with one slash unless the first is empty or already ends with a slash.
\<close>

definition os_path_join :: "string \<Rightarrow> string \<Rightarrow> string" where
  "os_path_join a b =
     (if prefix ''/'' b then b
      else if a = [] \<or> suffix ''/'' a then a @ b
      else a @ ''/'' @ b)"

definition BASE_PATH :: string where
  "BASE_PATH = ''resources/data''"

definition ENGINEERING_FILES :: "string list" where
  "ENGINEERING_FILES = [os_path_join BASE_PATH ''engineering/engineering_master_doc.md'']"

definition FINANCE_FILES :: "string list" where
  "FINANCE_FILES =
     [os_path_join BASE_PATH ''finance/financial_summary.md'',
      os_path_join BASE_PATH ''finance/quarterly_financial_report.md'']"

definition GENERAL_FILES :: "string list" where
  "GENERAL_FILES = [os_path_join BASE_PATH ''general/employee_handbook.md'']"

definition HR_FILES :: "string list" where
  "HR_FILES = [os_path_join BASE_PATH ''hr/hr_data.csv'']"

definition MARKETING_FILES :: "string list" where
  "MARKETING_FILES =
     [os_path_join BASE_PATH ''marketing/market_report_q4_2024.md'',
      os_path_join BASE_PATH ''marketing/marketing_report_2024.md'',
      os_path_join BASE_PATH ''marketing/marketing_report_q1_2024.md'',
      os_path_join BASE_PATH ''marketing/marketing_report_q2_2024.md'',
      os_path_join BASE_PATH ''marketing/marketing_report_q3_2024.md'']"

definition ALL_FILES :: "string list" where
  "ALL_FILES = ENGINEERING_FILES @ FINANCE_FILES @ GENERAL_FILES @ HR_FILES @ MARKETING_FILES"

text \<open>
  The dict literal \<^verbatim>\<open>ROLE_PERMISSIONS\<close>, in source order. Its six keys are pairwise
  different, so reading it with \<^const>\<open>map_of\<close> is the dict lookup.
\<close>

definition ROLE_PERMISSIONS :: "(string \<times> string list) list" where
  "ROLE_PERMISSIONS =
     [(''finance_team'', FINANCE_FILES @
          [os_path_join BASE_PATH ''marketing/marketing_report_2024.md'',
           os_path_join BASE_PATH ''general/employee_handbook.md'']),
      (''marketing_team'', MARKETING_FILES),
      (''hr_team'', HR_FILES @ GENERAL_FILES),
      (''engineering_department'', ENGINEERING_FILES),
      (''c_level_executives'', ALL_FILES),
      (''employee_level'', GENERAL_FILES)]"

text \<open>\<^verbatim>\<open>ROLE_PERMISSIONS.get(role, [])\<close>.\<close>

definition get_allowed_documents :: "string \<Rightarrow> string list" where
  "get_allowed_documents role =
     (case map_of ROLE_PERMISSIONS role of Some docs \<Rightarrow> docs | None \<Rightarrow> [])"

subsection \<open>Documents and metadata\<close>

text \<open>
  A LangChain \<^verbatim>\<open>Document\<close> has a \<^verbatim>\<open>page_content\<close> string and a \<^verbatim>\<open>metadata\<close> dict.
  The dicts of this repository are written by \<^verbatim>\<open>ingest_data\<close> and by the loaders it
  calls: the key \<^verbatim>\<open>'source'\<close> holds a file path (a string) and the key \<^verbatim>\<open>'row'\<close> a row
  number (an integer). A key that is absent from the dict is \<^const>\<open>None\<close> here, so
  \<^verbatim>\<open>metadata.get('source')\<close> is the field \<open>source\<close> itself and
  \<^verbatim>\<open>'row' in metadata\<close> is \<open>row m \<noteq> None\<close>.
\<close>

record doc_metadata =
  source :: "string option"
  row :: "int option"

record document =
  page_content :: string
  metadata :: doc_metadata

text \<open>Exceptions as values; \<open>str_exn\<close> is \<^verbatim>\<open>str(e)\<close>.\<close>

datatype exn = NameError string | FileNotFoundError string | Exception string

fun str_exn :: "exn \<Rightarrow> string" where
  "str_exn (NameError n) = ''name '' @ [CHR 0x27] @ n @ [CHR 0x27] @ '' is not defined''"
| "str_exn (FileNotFoundError m) = m"
| "str_exn (Exception m) = m"

subsection \<open>\<^verbatim>\<open>rag_pipeline.py\<close>: \<^verbatim>\<open>format_docs_for_context\<close>\<close>

abbreviation NL :: string where
  "NL \<equiv> [CHR 0x0A]"

text \<open>\<^verbatim>\<open>str(i)\<close> for a Python integer: decimal digits, a minus sign for a negative one.\<close>

fun digits10 :: "nat \<Rightarrow> string" where
  "digits10 n =
     (if n < 10 then [''0123456789'' ! n]
      else digits10 (n div 10) @ [''0123456789'' ! (n mod 10)])"

declare digits10.simps [simp del]

definition py_str_int :: "int \<Rightarrow> string" where
  "py_str_int i = (if i < 0 then CHR ''-'' # digits10 (nat (- i)) else digits10 (nat i))"

text \<open>\<^verbatim>\<open>sep.join(parts)\<close>.\<close>

fun str_join :: "string \<Rightarrow> string list \<Rightarrow> string" where
  "str_join sep [] = []"
| "str_join sep [x] = x"
| "str_join sep (x # y # ys) = x @ sep @ str_join sep (y # ys)"

text \<open>
  The \<^verbatim>\<open>for doc in docs\<close> loop of \<^verbatim>\<open>format_docs_for_context\<close>; the second argument is
  the list \<^verbatim>\<open>formatted_docs\<close> that the loop appends to.
\<close>

fun format_loop :: "document list \<Rightarrow> string list \<Rightarrow> string list" where
  "format_loop [] formatted_docs = formatted_docs"
| "format_loop (doc # docs) formatted_docs =
     (let source0 = (case source (metadata doc) of Some s \<Rightarrow> s | None \<Rightarrow> ''Unknown Source'');
          source1 = (case row (metadata doc) of
                       Some r \<Rightarrow> source0 @ '' (Row: '' @ py_str_int r @ '')''
                     | None \<Rightarrow> source0);
          content = page_content doc
      in format_loop docs (formatted_docs @ [''Source: '' @ source1 @ NL @ content]))"

definition format_docs_for_context :: "document list \<Rightarrow> string" where
  "format_docs_for_context docs =
     (if docs = [] then ''No documents found or provided for context.''
      else str_join (NL @ NL) (format_loop docs []))"

subsection \<open>\<^verbatim>\<open>rag_pipeline.py\<close>: the environment of \<^verbatim>\<open>query_rag\<close>\<close>

text \<open>
  What \<^verbatim>\<open>query_rag\<close> reads from outside: the two environment variables, whether
  \<^verbatim>\<open>VECTOR_STORE_PATH\<close> exists, the outcome of loading the embeddings and the FAISS index
  (an exception, or a store whose retriever maps a question to the retrieved documents or
  to an exception), and the chat model followed by the output parser (a prompt to the
  answer text, or an exception). The effects the function has on the providers are
  recorded as a list of events, in order.
\<close>

type_synonym retriever = "string \<Rightarrow> exn + document list"

record environment =
  OPENAI_API_KEY :: "string option"
  OPENAI_API_BASE :: "string option"
  vector_store_exists :: bool
  load_local :: "exn + retriever"
  llm :: "string \<Rightarrow> exn + string"

datatype event = LoadVectorStore | InitLLM | SimilaritySearch string | Generate string

text \<open>\<^verbatim>\<open>not v\<close> for the value of \<^verbatim>\<open>os.getenv\<close>: true for \<^verbatim>\<open>None\<close> and for the empty string.\<close>

definition py_not :: "string option \<Rightarrow> bool" where
  "py_not v = (case v of None \<Rightarrow> True | Some s \<Rightarrow> s = [])"

definition VECTOR_STORE_PATH :: string where
  "VECTOR_STORE_PATH = ''vector_store/faiss_index''"

text \<open>The dict \<^verbatim>\<open>query_rag\<close> returns; \<open>error = None\<close> is a dict without the key \<^verbatim>\<open>"error"\<close>.\<close>

record rag_result =
  answer :: string
  sources :: "string list"
  error :: "string option"

record chain_input =
  question :: string
  role :: string

text \<open>\<^verbatim>\<open>prompt.format(context=..., question=...)\<close> on the template of \<^verbatim>\<open>query_rag\<close>.\<close>

definition prompt_format :: "string \<Rightarrow> string \<Rightarrow> string" where
  "prompt_format context q =
     NL @ ''You are an AI assistant for FinSolve Technologies. Your role is to provide information based ONLY on the provided company documents.''
     @ NL @ ''Answer the user'' @ [CHR 0x27] @ ''s question based strictly on the context given.''
     @ NL @ ''If the information is not found in the provided context, you MUST state that the information is not available in the documents you have access to.''
     @ NL @ ''Do not make up information or use external knowledge.''
     @ NL @ ''After your answer, list all unique source document(s) you used to answer the question. Each source should be on a new line and start with ''
     @ [CHR 0x22] @ ''Source: '' @ [CHR 0x22] @ ''.''
     @ NL @ NL @ ''Context:'' @ NL @ context
     @ NL @ NL @ ''Question: '' @ q
     @ NL @ NL @ ''Answer:'' @ NL"

subsection \<open>\<^verbatim>\<open>rag_pipeline.py\<close>: \<^verbatim>\<open>_get_filtered_docs\<close> and the chain\<close>

text \<open>
  \<^verbatim>\<open>_get_filtered_docs\<close> is nested in \<^verbatim>\<open>query_rag\<close> and captures \<^verbatim>\<open>retriever\<close>, here its
  first argument. The test \<^verbatim>\<open>doc.metadata.get('source') in allowed_sources\<close> compares
  the looked-up value, \<^verbatim>\<open>None\<close> when the key is missing, with each string of the list.
\<close>

definition get_filtered_docs :: "retriever \<Rightarrow> chain_input \<Rightarrow> (exn + document list) \<times> event list" where
  "get_filtered_docs retriever input_dict =
     (let allowed_sources = get_allowed_documents (role input_dict) in
      if allowed_sources = [] then (Inr [], [])
      else
        (case retriever (question input_dict) of
           Inl e \<Rightarrow> (Inl e, [SimilaritySearch (question input_dict)])
         | Inr retrieved_docs \<Rightarrow>
             (Inr (filter (\<lambda>doc. source (metadata doc) \<in> set (map Some allowed_sources))
                     retrieved_docs),
              [SimilaritySearch (question input_dict)])))"

text \<open>
  The second stage's \<^verbatim>\<open>sources\<close> entry:
  \<^verbatim>\<open>sorted(list(set(doc.metadata['source'] for doc in ... if 'source' in doc.metadata)))\<close>.
  Python orders strings by code point, lexicographically, which is the order of
  \<^typ>\<open>string\<close> here.
\<close>

definition chain_sources :: "document list \<Rightarrow> string list" where
  "chain_sources filtered_docs =
     sort (remdups (List.map_filter (\<lambda>doc. source (metadata doc)) filtered_docs))"

text \<open>
  The names bound at module level in \<^verbatim>\<open>rag_pipeline.py\<close> (imports, constants and
  functions). Line 10 imports \<^verbatim>\<open>StrOutputParser\<close>; no line binds
  \<^verbatim>\<open>StringOutputParser\<close>. Python resolves a global name when the expression that
  uses it is evaluated and raises \<^verbatim>\<open>NameError\<close> when it is not bound.
\<close>

definition rag_pipeline_globals :: "string list" where
  "rag_pipeline_globals =
     [''os'', ''load_dotenv'', ''FAISS'', ''HuggingFaceEmbeddings'', ''ChatOpenAI'',
      ''PromptTemplate'', ''RunnablePassthrough'', ''RunnableLambda'', ''RunnableParallel'',
      ''StrOutputParser'', ''Document'', ''get_allowed_documents'', ''VECTOR_STORE_PATH'',
      ''EMBEDDING_MODEL_NAME'', ''LLM_MODEL_NAME'', ''format_docs_for_context'', ''query_rag'']"

definition lookup_global :: "string \<Rightarrow> exn + unit" where
  "lookup_global name = (if name \<in> set rag_pipeline_globals then Inr () else Inl (NameError name))"

text \<open>
  The assignment \<^verbatim>\<open>lcel_chain = (...)\<close> of lines 137 to 161. Building the chain
  evaluates \<^verbatim>\<open>StringOutputParser()\<close> (line 157), so the assignment raises when that name
  is not bound. Otherwise its value is the chain, given here by what
  \<^verbatim>\<open>lcel_chain.invoke(input_dict)\<close> does: the first stage filters, the second builds
  context, question and sources, the third formats the prompt and calls the model for
  \<^verbatim>\<open>answer\<close> while \<^verbatim>\<open>sources\<close> is passed through. An exception of a stage ends the
  invocation.
\<close>

definition lcel_chain :: "retriever \<Rightarrow> (string \<Rightarrow> exn + string) \<Rightarrow> exn + (chain_input \<Rightarrow> (exn + rag_result) \<times> event list)" where
  "lcel_chain retriever llm_call =
     (case lookup_global ''StringOutputParser'' of
        Inl e \<Rightarrow> Inl e
      | Inr _ \<Rightarrow>
          Inr (\<lambda>input_dict.
            case get_filtered_docs retriever input_dict of
              (Inl e, evs) \<Rightarrow> (Inl e, evs)
            | (Inr filtered_docs, evs) \<Rightarrow>
                (let context = format_docs_for_context filtered_docs;
                     q = question input_dict;
                     srcs = chain_sources filtered_docs;
                     prompt_text = prompt_format context q
                 in case llm_call prompt_text of
                      Inl e \<Rightarrow> (Inl e, evs @ [Generate prompt_text])
                    | Inr a \<Rightarrow>
                        (Inr \<lparr>answer = a, sources = srcs, error = None\<rparr>,
                         evs @ [Generate prompt_text]))))"

subsection \<open>\<^verbatim>\<open>rag_pipeline.py\<close>: \<^verbatim>\<open>query_rag\<close>\<close>

text \<open>Lines 163 to 173: the \<^verbatim>\<open>try\<close> around \<^verbatim>\<open>lcel_chain.invoke\<close>.\<close>

definition try_invoke :: "exn + rag_result \<Rightarrow> rag_result" where
  "try_invoke outcome =
     (case outcome of
        Inr response \<Rightarrow> response
      | Inl e \<Rightarrow>
          \<lparr>answer = ''An error occurred while processing your request: '' @ str_exn e,
           sources = [], error = None\<rparr>)"

text \<open>
  \<^verbatim>\<open>query_rag\<close>. Building the retriever, the prompt template and the chat-model client
  is taken not to fail; the retrieval and the model call happen inside the chain. The
  chain is built outside the \<^verbatim>\<open>try\<close> blocks, so an exception of building it leaves
  \<^verbatim>\<open>query_rag\<close>.
\<close>

definition query_rag :: "environment \<Rightarrow> string \<Rightarrow> string \<Rightarrow> (exn + rag_result) \<times> event list" where
  "query_rag env user_query user_role =
     (if py_not (OPENAI_API_KEY env) then
        (Inr \<lparr>answer = ''Error: OPENAI_API_KEY environment variable not set. Cannot query the LLM.'',
              sources = [], error = None\<rparr>, [])
      else if \<not> vector_store_exists env then
        (Inr \<lparr>answer = ''Error: Vector store not found at '' @ VECTOR_STORE_PATH
                 @ ''. Please run the ingestion script first.'',
              sources = [], error = None\<rparr>, [])
      else
        (case load_local env of
           Inl e \<Rightarrow>
             (Inr \<lparr>answer = ''Error loading vector store or embeddings: '' @ str_exn e,
                   sources = [], error = None\<rparr>, [LoadVectorStore])
         | Inr retriever \<Rightarrow>
             (case lcel_chain retriever (llm env) of
                Inl e \<Rightarrow> (Inl e, [LoadVectorStore, InitLLM])
              | Inr chain \<Rightarrow>
                  (case chain \<lparr>question = user_query, role = user_role\<rparr> of
                     (outcome, evs) \<Rightarrow>
                       (Inr (try_invoke outcome), [LoadVectorStore, InitLLM] @ evs)))))"

subsection \<open>\<^verbatim>\<open>api/main.py\<close>: \<^verbatim>\<open>handle_chat_query\<close>\<close>

record chat_query_request =
  query :: string
  request_role :: string
  session_id :: "string option"

record chat_query_response =
  response_answer :: string
  response_sources :: "string list"
  response_error :: "string option"

datatype http_exception = HTTPException (status_code: nat) (detail: string)

text \<open>
  The handler reads the environment again before it calls \<^verbatim>\<open>query_rag\<close>. The dict it
  gets always has the key \<^verbatim>\<open>"answer"\<close>, so the default of \<^verbatim>\<open>result.get("answer", ...)\<close>
  is never taken. \<^verbatim>\<open>result.get("error")\<close> is truthy for a non-empty string.
\<close>

definition handle_chat_query :: "environment \<Rightarrow> chat_query_request \<Rightarrow> (http_exception + chat_query_response) \<times> event list" where
  "handle_chat_query env request =
     (if py_not (OPENAI_API_KEY env) then
        (Inl (HTTPException 500 ''Server configuration error: OPENAI_API_KEY not set.''), [])
      else if \<not> vector_store_exists env then
        (Inl (HTTPException 500 (''Server error: Vector store not found at '' @ VECTOR_STORE_PATH
                @ ''. Please run ingestion.'')), [])
      else
        (case query_rag env (query request) (request_role request) of
           (Inr result, evs) \<Rightarrow>
             (if \<not> py_not (error result) then
                (Inl (HTTPException 500 (case error result of Some d \<Rightarrow> d | None \<Rightarrow> [])), evs)
              else
                (Inr \<lparr>response_answer = answer result, response_sources = sources result,
                      response_error = None\<rparr>, evs))
         | (Inl (FileNotFoundError m), evs) \<Rightarrow>
             (Inl (HTTPException 500
                (''Server error: A required file was not found: '' @ str_exn (FileNotFoundError m))), evs)
         | (Inl e, evs) \<Rightarrow>
             (Inl (HTTPException 500
                ''An unexpected internal error occurred. Please check server logs.''), evs)))"

subsection \<open>\<^verbatim>\<open>ingest_data.py\<close>: \<^verbatim>\<open>ingest_data\<close>\<close>

text \<open>
  What \<^verbatim>\<open>ingest_data\<close> reads and calls: \<^verbatim>\<open>os.path.exists\<close>, the two loaders
  (\<^verbatim>\<open>CSVLoader(...).load()\<close>, one document per row, and \<^verbatim>\<open>TextLoader(...).load()\<close>), the
  text splitter, and the final step that embeds the chunks, builds the FAISS index and
  saves it at \<^verbatim>\<open>VECTOR_STORE_PATH\<close>.
\<close>

record ingest_env =
  path_exists :: "string \<Rightarrow> bool"
  csv_load :: "string \<Rightarrow> exn + document list"
  text_load :: "string \<Rightarrow> exn + document list"
  split_documents :: "document list \<Rightarrow> document list"
  build_and_save :: "document list \<Rightarrow> exn + unit"

text \<open>
  One iteration of \<^verbatim>\<open>for file_path in ALL_FILES\<close>: the documents the iteration adds to
  \<^verbatim>\<open>all_docs_content\<close>. A missing file, an unsupported extension and an exception of a
  loader all skip the file. The page content of a loaded row is a string already.
\<close>

definition set_source :: "string \<Rightarrow> document \<Rightarrow> document" where
  "set_source file_path doc = doc\<lparr>metadata := (metadata doc)\<lparr>source := Some file_path\<rparr>\<rparr>"

definition load_file :: "ingest_env \<Rightarrow> string \<Rightarrow> document list" where
  "load_file env file_path =
     (if \<not> path_exists env file_path then []
      else if suffix ''.csv'' file_path then
        (if sublist ''hr_data.csv'' file_path then
           (case csv_load env file_path of
              Inl e \<Rightarrow> []
            | Inr raw_documents \<Rightarrow>
                map (\<lambda>(i, doc). \<lparr>page_content = page_content doc,
                                  metadata = \<lparr>source = Some file_path, row = Some (int i + 1)\<rparr>\<rparr>)
                    (enumerate 0 raw_documents))
         else
           (case csv_load env file_path of
              Inl e \<Rightarrow> []
            | Inr documents \<Rightarrow> map (set_source file_path) documents))
      else if suffix ''.md'' file_path then
        (case text_load env file_path of
           Inl e \<Rightarrow> []
         | Inr documents \<Rightarrow> map (set_source file_path) documents)
      else [])"

text \<open>
  \<^verbatim>\<open>ingest_data()\<close>. The first component is how the call ends (\<open>Inr ()\<close>: it returns
  \<^verbatim>\<open>None\<close>; \<open>Inl e\<close>: it raises), the second the chunks saved at
  \<^verbatim>\<open>VECTOR_STORE_PATH\<close> by this call (\<^const>\<open>None\<close>: nothing was written).
\<close>

definition ingest_data :: "ingest_env \<Rightarrow> (exn + unit) \<times> document list option" where
  "ingest_data env =
     (let all_docs_content = concat (map (load_file env) ALL_FILES) in
      if all_docs_content = [] then (Inr (), None)
      else
        (let chunks = split_documents env all_docs_content in
         case build_and_save env chunks of
           Inl e \<Rightarrow> (Inl e, None)
         | Inr _ \<Rightarrow> (Inr (), Some chunks)))"

subsection \<open>The context string in the words of the specification\<close>

text \<open>
  The specification's chunk: a text, the identifier of its source document and an
  optional row number. \<open>chunk_document\<close> is the document that carries it. The context
  of the specification: the sentinel for no chunk; otherwise one block per chunk, in
  order, a blank line before every block but the first. A block is the attribution
  header (the source identifier, the row number appended when there is one), a line
  break and the text.
\<close>

record chunk =
  chunk_text :: string
  chunk_source :: string
  chunk_row :: "int option"

definition chunk_document :: "chunk \<Rightarrow> document" where
  "chunk_document c =
     \<lparr>page_content = chunk_text c,
      metadata = \<lparr>source = Some (chunk_source c), row = chunk_row c\<rparr>\<rparr>"

definition attribution_header :: "chunk \<Rightarrow> string" where
  "attribution_header c =
     ''Source: '' @ chunk_source c
       @ (case chunk_row c of None \<Rightarrow> [] | Some r \<Rightarrow> '' (Row: '' @ py_str_int r @ '')'')"

definition chunk_block :: "chunk \<Rightarrow> string" where
  "chunk_block c = attribution_header c @ NL @ chunk_text c"

definition spec_context :: "chunk list \<Rightarrow> string" where
  "spec_context cs =
     (case cs of
        [] \<Rightarrow> ''No documents found or provided for context.''
      | c # rest \<Rightarrow> chunk_block c @ concat (map (\<lambda>c'. NL @ NL @ chunk_block c') rest))"

subsection \<open>Sample inputs\<close>

text \<open>
  Concrete documents and a retriever that returns them whatever the question, used where
  a theorem is evaluated at an input. One document has no \<^verbatim>\<open>'source'\<close> key.
\<close>

definition doc_handbook :: document where
  "doc_handbook = \<lparr>page_content = ''Leave policy'',
     metadata = \<lparr>source = Some ''resources/data/general/employee_handbook.md'', row = None\<rparr>\<rparr>"

definition doc_finance :: document where
  "doc_finance = \<lparr>page_content = ''Q4 revenue'',
     metadata = \<lparr>source = Some ''resources/data/finance/financial_summary.md'', row = None\<rparr>\<rparr>"

definition doc_hr_row :: document where
  "doc_hr_row = \<lparr>page_content = ''name: A'',
     metadata = \<lparr>source = Some ''resources/data/hr/hr_data.csv'', row = Some 12\<rparr>\<rparr>"

definition doc_no_source :: document where
  "doc_no_source = \<lparr>page_content = ''orphan'',
     metadata = \<lparr>source = None, row = None\<rparr>\<rparr>"

definition sample_retriever :: retriever where
  "sample_retriever q = Inr [doc_finance, doc_hr_row, doc_no_source, doc_handbook, doc_hr_row]"


text \<open>A chat model that cites a document whatever the prompt, and two chunks.\<close>

definition sample_llm :: "string \<Rightarrow> exn + string" where
  "sample_llm prompt_text =
     Inr ''Profits rose. Source: resources/data/finance/financial_summary.md''"

definition chunk_hr :: chunk where
  "chunk_hr = \<lparr>chunk_text = ''name: A'', chunk_source = ''resources/data/hr/hr_data.csv'',
               chunk_row = Some 12\<rparr>"

definition chunk_handbook :: chunk where
  "chunk_handbook = \<lparr>chunk_text = ''Leave policy'',
                     chunk_source = ''resources/data/general/employee_handbook.md'',
                     chunk_row = None\<rparr>"

text \<open>
  Environments of \<^verbatim>\<open>query_rag\<close>: everything in place; no credential; no index path; an
  index that fails to load. A request, and two environments of \<^verbatim>\<open>ingest_data\<close>: one
  where no file exists, one where every file loads and the final build step raises.
\<close>

definition env_ready :: environment where
  "env_ready = \<lparr>OPENAI_API_KEY = Some ''sk-test'', OPENAI_API_BASE = None,
                 vector_store_exists = True, load_local = Inr sample_retriever, llm = sample_llm\<rparr>"

definition env_no_key :: environment where
  "env_no_key = env_ready\<lparr>OPENAI_API_KEY := None\<rparr>"

definition env_no_store :: environment where
  "env_no_store = env_ready\<lparr>vector_store_exists := False\<rparr>"

definition env_load_fails :: environment where
  "env_load_fails = env_ready\<lparr>load_local := Inl (Exception ''index.faiss is corrupt'')\<rparr>"

definition sample_request :: chat_query_request where
  "sample_request = \<lparr>query = ''What is the leave policy?'', request_role = ''employee_level'',
                      session_id = None\<rparr>"

definition ingest_env_no_files :: ingest_env where
  "ingest_env_no_files =
     \<lparr>path_exists = (\<lambda>p. False),
      csv_load = (\<lambda>p. Inl (FileNotFoundError p)),
      text_load = (\<lambda>p. Inl (FileNotFoundError p)),
      split_documents = (\<lambda>docs. docs),
      build_and_save = (\<lambda>chunks. Inr ())\<rparr>"

definition ingest_env_build_fails :: ingest_env where
  "ingest_env_build_fails =
     \<lparr>path_exists = (\<lambda>p. True),
      csv_load = (\<lambda>p. Inr [doc_no_source, doc_no_source]),
      text_load = (\<lambda>p. Inr [doc_no_source]),
      split_documents = (\<lambda>docs. docs),
      build_and_save = (\<lambda>chunks. Inl (Exception ''embedding model unavailable''))\<rparr>"

section \<open>Properties\<close>

subsection \<open>The document catalogue\<close>

lemma os_path_join_BASE_PATH:
  "os_path_join ''resources/data'' (c # cs) =
     (if c = CHR ''/'' then c # cs else ''resources/data/'' @ c # cs)"
  by (simp add: os_path_join_def suffix_to_prefix)

lemmas file_defs =
  ENGINEERING_FILES_def FINANCE_FILES_def GENERAL_FILES_def HR_FILES_def MARKETING_FILES_def
  ALL_FILES_def os_path_join_BASE_PATH BASE_PATH_def

lemma ALL_FILES_value:
  "ALL_FILES =
     [''resources/data/engineering/engineering_master_doc.md'',
      ''resources/data/finance/financial_summary.md'',
      ''resources/data/finance/quarterly_financial_report.md'',
      ''resources/data/general/employee_handbook.md'',
      ''resources/data/hr/hr_data.csv'',
      ''resources/data/marketing/market_report_q4_2024.md'',
      ''resources/data/marketing/marketing_report_2024.md'',
      ''resources/data/marketing/marketing_report_q1_2024.md'',
      ''resources/data/marketing/marketing_report_q2_2024.md'',
      ''resources/data/marketing/marketing_report_q3_2024.md'']"
  by (simp add: file_defs)

lemma role_keys_distinct: "distinct (map fst ROLE_PERMISSIONS)"
  by (simp add: ROLE_PERMISSIONS_def)

lemma perm_subset: "(r, ds) \<in> set ROLE_PERMISSIONS \<Longrightarrow> set ds \<subseteq> set ALL_FILES"
  unfolding ROLE_PERMISSIONS_def by (auto simp add: file_defs)

lemma allowed_subset_ALL_FILES: "set (get_allowed_documents r) \<subseteq> set ALL_FILES"
proof (cases "map_of ROLE_PERMISSIONS r")
  case None
  then show ?thesis by (simp add: get_allowed_documents_def)
next
  case (Some ds)
  then have "(r, ds) \<in> set ROLE_PERMISSIONS" by (rule map_of_SomeD)
  then have "set ds \<subseteq> set ALL_FILES" by (rule perm_subset)
  with Some show ?thesis by (simp add: get_allowed_documents_def)
qed

text \<open>
  Claim C5. \<^verbatim>\<open>get_allowed_documents\<close> is a total function of the role string: each of the
  six configured roles gets its configured list, and every other string gets the empty
  list. No branch of it raises.
\<close>

theorem get_allowed_documents_total:
  "get_allowed_documents ''finance_team'' =
     FINANCE_FILES @ [''resources/data/marketing/marketing_report_2024.md'',
                      ''resources/data/general/employee_handbook.md'']
   \<and> get_allowed_documents ''marketing_team'' = MARKETING_FILES
   \<and> get_allowed_documents ''hr_team'' = HR_FILES @ GENERAL_FILES
   \<and> get_allowed_documents ''engineering_department'' = ENGINEERING_FILES
   \<and> get_allowed_documents ''c_level_executives'' = ALL_FILES
   \<and> get_allowed_documents ''employee_level'' = GENERAL_FILES
   \<and> (r \<notin> {''finance_team'', ''marketing_team'', ''hr_team'', ''engineering_department'',
             ''c_level_executives'', ''employee_level''} \<longrightarrow> get_allowed_documents r = [])"
  by (simp add: get_allowed_documents_def ROLE_PERMISSIONS_def os_path_join_BASE_PATH BASE_PATH_def)

theorem get_allowed_documents_total_witness:
  "''unknown_role'' \<notin> {''finance_team'', ''marketing_team'', ''hr_team'',
       ''engineering_department'', ''c_level_executives'', ''employee_level''}
   \<and> get_allowed_documents ''unknown_role'' = []
   \<and> get_allowed_documents ''hr_team'' =
        [''resources/data/hr/hr_data.csv'', ''resources/data/general/employee_handbook.md'']"
  using get_allowed_documents_total [of "''unknown_role''"] by (simp add: file_defs)

text \<open>
  Claim C6. The documents of \<^verbatim>\<open>"employee_level"\<close> are a strict subset of the documents
  of \<^verbatim>\<open>"c_level_executives"\<close>, and the documents of every role (configured or not) are
  among the documents of \<^verbatim>\<open>"c_level_executives"\<close>.
\<close>

theorem executives_superset_of_all_roles:
  "set (get_allowed_documents ''employee_level'')
     \<subset> set (get_allowed_documents ''c_level_executives'')
   \<and> (\<forall>r. set (get_allowed_documents r) \<subseteq> set (get_allowed_documents ''c_level_executives''))"
proof -
  have c: "get_allowed_documents ''c_level_executives'' = ALL_FILES"
    by (simp add: get_allowed_documents_def ROLE_PERMISSIONS_def)
  have e: "get_allowed_documents ''employee_level'' = GENERAL_FILES"
    by (simp add: get_allowed_documents_def ROLE_PERMISSIONS_def)
  have s: "set GENERAL_FILES \<subset> set ALL_FILES"
    by (auto simp add: file_defs)
  show ?thesis using c e s allowed_subset_ALL_FILES by simp
qed

lemmas sample_defs = doc_handbook_def doc_finance_def doc_hr_row_def doc_no_source_def sample_retriever_def

lemma allowed_hr: "get_allowed_documents ''hr_team'' = [''resources/data/hr/hr_data.csv'', ''resources/data/general/employee_handbook.md'']"
  by (simp add: get_allowed_documents_def ROLE_PERMISSIONS_def file_defs)

subsection \<open>The role filter\<close>

text \<open>
  Claim C1. Whatever the retriever returns for the question, every document in the list
  that \<^verbatim>\<open>_get_filtered_docs\<close> returns carries a \<^verbatim>\<open>'source'\<close> value, and that value is one
  of the documents \<^verbatim>\<open>get_allowed_documents\<close> gives for the role.
\<close>

theorem filtered_docs_authorized:
  assumes "fst (get_filtered_docs retriever input_dict) = Inr docs" and "doc \<in> set docs"
  shows "\<exists>s. source (metadata doc) = Some s \<and> s \<in> set (get_allowed_documents (role input_dict))"
  using assms
  by (auto simp add: get_filtered_docs_def Let_def split: if_splits sum.splits)

theorem filtered_docs_authorized_witness:
  "fst (get_filtered_docs sample_retriever \<lparr>question = ''Who is in HR?'', role = ''hr_team''\<rparr>)
     = Inr [doc_hr_row, doc_handbook, doc_hr_row]
   \<and> doc_handbook \<in> set [doc_hr_row, doc_handbook, doc_hr_row]
   \<and> (\<exists>s. source (metadata doc_handbook) = Some s \<and> s \<in> set (get_allowed_documents ''hr_team''))"
proof -
  have r: "fst (get_filtered_docs sample_retriever \<lparr>question = ''Who is in HR?'', role = ''hr_team''\<rparr>)
     = Inr [doc_hr_row, doc_handbook, doc_hr_row]"
    by (simp add: get_filtered_docs_def allowed_hr sample_defs)
  have m: "doc_handbook \<in> set [doc_hr_row, doc_handbook, doc_hr_row]" by simp
  from filtered_docs_authorized [OF r m] r m show ?thesis by simp
qed

text \<open>
  Claim C2. For a role whose allowed list is empty, and so for every role that is not
  configured, \<^verbatim>\<open>_get_filtered_docs\<close> returns the empty list and records no event: the
  retriever is not called. Whenever it does record an event, the allowed list is not
  empty and the event is the one similarity search for the question.
\<close>

theorem empty_allowlist_short_circuits:
  "(get_allowed_documents (role input_dict) = [] \<longrightarrow>
      get_filtered_docs retriever input_dict = (Inr [], []))
   \<and> (role input_dict \<notin> {''finance_team'', ''marketing_team'', ''hr_team'',
         ''engineering_department'', ''c_level_executives'', ''employee_level''} \<longrightarrow>
      get_filtered_docs retriever input_dict = (Inr [], []))
   \<and> (snd (get_filtered_docs retriever input_dict) \<noteq> [] \<longrightarrow>
      get_allowed_documents (role input_dict) \<noteq> []
      \<and> snd (get_filtered_docs retriever input_dict) = [SimilaritySearch (question input_dict)])"
proof -
  have u: "role input_dict \<notin> {''finance_team'', ''marketing_team'', ''hr_team'',
         ''engineering_department'', ''c_level_executives'', ''employee_level''} \<Longrightarrow>
      get_allowed_documents (role input_dict) = []"
    by (simp add: get_allowed_documents_def ROLE_PERMISSIONS_def)
  show ?thesis using u
    by (auto simp add: get_filtered_docs_def Let_def split: sum.splits)
qed

theorem empty_allowlist_short_circuits_witness:
  "get_allowed_documents ''unknown_role'' = []
   \<and> get_filtered_docs sample_retriever \<lparr>question = ''Who is in HR?'', role = ''unknown_role''\<rparr> = (Inr [], [])
   \<and> snd (get_filtered_docs sample_retriever \<lparr>question = ''Who is in HR?'', role = ''hr_team''\<rparr>)
       = [SimilaritySearch ''Who is in HR?'']
   \<and> get_allowed_documents ''hr_team'' \<noteq> []"
proof -
  have a: "get_allowed_documents ''unknown_role'' = []"
    by (simp add: get_allowed_documents_def ROLE_PERMISSIONS_def)
  have b: "snd (get_filtered_docs sample_retriever \<lparr>question = ''Who is in HR?'', role = ''hr_team''\<rparr>)
       = [SimilaritySearch ''Who is in HR?'']"
    by (simp add: get_filtered_docs_def allowed_hr sample_defs)
  from empty_allowlist_short_circuits [of "\<lparr>question = ''Who is in HR?'', role = ''unknown_role''\<rparr>" sample_retriever]
       empty_allowlist_short_circuits [of "\<lparr>question = ''Who is in HR?'', role = ''hr_team''\<rparr>" sample_retriever]
       a b
  show ?thesis by simp
qed

text \<open>
  Claim C10. A retrieved document whose metadata has no \<^verbatim>\<open>'source'\<close> key is never in the
  filtered list, for any role and any retriever.
\<close>

theorem missing_source_excluded:
  assumes "retriever (question input_dict) = Inr retrieved_docs"
    and "doc \<in> set retrieved_docs"
    and "source (metadata doc) = None"
  shows "\<exists>docs. fst (get_filtered_docs retriever input_dict) = Inr docs \<and> doc \<notin> set docs"
  using assms
  by (auto simp add: get_filtered_docs_def Let_def)

theorem missing_source_excluded_witness:
  "sample_retriever ''Who is in HR?'' = Inr [doc_finance, doc_hr_row, doc_no_source, doc_handbook, doc_hr_row]
   \<and> doc_no_source \<in> set [doc_finance, doc_hr_row, doc_no_source, doc_handbook, doc_hr_row]
   \<and> source (metadata doc_no_source) = None
   \<and> fst (get_filtered_docs sample_retriever \<lparr>question = ''Who is in HR?'', role = ''c_level_executives''\<rparr>)
       = Inr [doc_finance, doc_hr_row, doc_handbook, doc_hr_row]
   \<and> doc_no_source \<notin> set [doc_finance, doc_hr_row, doc_handbook, doc_hr_row]"
proof -
  have a: "sample_retriever (question \<lparr>question = ''Who is in HR?'', role = ''c_level_executives''\<rparr>) = Inr [doc_finance, doc_hr_row, doc_no_source, doc_handbook, doc_hr_row]"
    by (simp add: sample_retriever_def)
  have b: "doc_no_source \<in> set [doc_finance, doc_hr_row, doc_no_source, doc_handbook, doc_hr_row]" by simp
  have c: "source (metadata doc_no_source) = None" by (simp add: doc_no_source_def)
  have d: "fst (get_filtered_docs sample_retriever \<lparr>question = ''Who is in HR?'', role = ''c_level_executives''\<rparr>)
       = Inr [doc_finance, doc_hr_row, doc_handbook, doc_hr_row]"
    by (simp add: get_filtered_docs_def get_allowed_documents_def ROLE_PERMISSIONS_def ALL_FILES_value sample_defs)
  from missing_source_excluded
         [where retriever = sample_retriever
            and input_dict = "\<lparr>question = ''Who is in HR?'', role = ''c_level_executives''\<rparr>",
          OF a b c] a b c d show ?thesis
    by (simp add: sample_defs)
qed

subsection \<open>The context string\<close>

lemma format_loop_chunks:
  "format_loop (map chunk_document cs) acc = acc @ map chunk_block cs"
  by (induction cs arbitrary: acc)
     (simp_all add: chunk_document_def chunk_block_def attribution_header_def Let_def split: option.splits)

lemma str_join_Cons:
  "str_join sep (x # xs) = x @ concat (map (\<lambda>y. sep @ y) xs)"
  by (induction xs arbitrary: x) simp_all

text \<open>
  Claim C9. For the documents of any list of chunks, \<^verbatim>\<open>format_docs_for_context\<close> returns
  the context of the specification: the fixed sentinel for the empty list, and otherwise
  the chunks' blocks in order, separated by blank lines, each block being the attribution
  header (source identifier, row number appended when present) followed by the text.
\<close>

theorem context_is_blocks_separated_by_blank_lines:
  "format_docs_for_context (map chunk_document cs) = spec_context cs"
proof (cases cs)
  case Nil
  then show ?thesis by (simp add: format_docs_for_context_def spec_context_def)
next
  case (Cons c rest)
  have "format_loop (map chunk_document cs) [] = map chunk_block cs"
    using format_loop_chunks [of cs "[]"] by simp
  then have "format_docs_for_context (map chunk_document cs) = str_join (NL @ NL) (map chunk_block cs)"
    using Cons by (simp add: format_docs_for_context_def del: format_loop.simps)
  also have "\<dots> = chunk_block c @ concat (map (\<lambda>c'. NL @ NL @ chunk_block c') rest)"
    using Cons by (simp add: str_join_Cons comp_def)
  finally show ?thesis using Cons by (simp add: spec_context_def)
qed

theorem context_is_blocks_separated_by_blank_lines_witness:
  "format_docs_for_context [chunk_document chunk_hr, chunk_document chunk_handbook] =
     ''Source: resources/data/hr/hr_data.csv (Row: 12)'' @ NL @ ''name: A'' @ NL @ NL
     @ ''Source: resources/data/general/employee_handbook.md'' @ NL @ ''Leave policy''
   \<and> format_docs_for_context [] = ''No documents found or provided for context.''"
  using context_is_blocks_separated_by_blank_lines [of "[chunk_hr, chunk_handbook]"]
    context_is_blocks_separated_by_blank_lines [of "[]"]
  by (simp add: spec_context_def chunk_block_def attribution_header_def chunk_hr_def
        chunk_handbook_def py_str_int_def digits10.simps)

text \<open>
  Outside the claim: a document without a \<^verbatim>\<open>'source'\<close> key, which the role filter never
  lets through, is attributed to \<^verbatim>\<open>Unknown Source\<close>.
\<close>

lemma format_docs_unknown_source:
  "format_docs_for_context [doc_no_source] = ''Source: Unknown Source'' @ NL @ ''orphan''"
  by (simp add: format_docs_for_context_def doc_no_source_def)

subsection \<open>The reported sources\<close>

lemma chain_sources_set:
  "set (chain_sources docs) = {s. \<exists>doc\<in>set docs. source (metadata doc) = Some s}"
  by (force simp add: chain_sources_def List.map_filter_def)

lemma chain_sources_sorted: "sorted (chain_sources docs)"
  by (simp add: chain_sources_def)

lemma chain_sources_distinct: "distinct (chain_sources docs)"
  by (simp add: chain_sources_def)

lemma filtered_sources_allowed:
  assumes "fst (get_filtered_docs retriever input_dict) = Inr docs"
  shows "set (chain_sources docs) \<subseteq> set (get_allowed_documents (role input_dict))"
  using assms
  by (auto simp add: chain_sources_set get_filtered_docs_def Let_def split: if_splits sum.splits)

lemma lookup_StringOutputParser:
  "lookup_global ''StringOutputParser'' = Inl (NameError ''StringOutputParser'')"
  by (simp add: lookup_global_def rag_pipeline_globals_def)

lemma lcel_chain_raises: "lcel_chain retriever llm_call = Inl (NameError ''StringOutputParser'')"
  by (simp add: lcel_chain_def lookup_StringOutputParser)

text \<open>
  Once the index is loaded, \<^verbatim>\<open>query_rag\<close> builds the chain and ends with the
  \<^verbatim>\<open>NameError\<close>, after the index load and the construction of the chat-model client and
  before any retrieval. So every dict that \<^verbatim>\<open>query_rag\<close> returns is one of its error
  dicts, with no sources.
\<close>

lemma query_rag_loaded:
  assumes "\<not> py_not (OPENAI_API_KEY env)" and "vector_store_exists env"
    and "load_local env = Inr retriever"
  shows "query_rag env user_query user_role =
           (Inl (NameError ''StringOutputParser''), [LoadVectorStore, InitLLM])"
  using assms by (simp add: query_rag_def lcel_chain_raises)

lemma query_rag_sources_empty:
  assumes "fst (query_rag env user_query user_role) = Inr result"
  shows "sources result = []"
  using assms
  by (auto simp add: query_rag_def lcel_chain_raises split: if_splits sum.splits)

lemma sample_filtered_hr:
  "get_filtered_docs sample_retriever \<lparr>question = ''Who is in HR?'', role = ''hr_team''\<rparr>
     = (Inr [doc_hr_row, doc_handbook, doc_hr_row], [SimilaritySearch ''Who is in HR?''])"
  by (simp add: get_filtered_docs_def allowed_hr sample_defs)

text \<open>
  Claim C3 says that the \<^verbatim>\<open>sources\<close> of the query result are the source identifiers of
  the filtered documents, without duplicates and in lexicographic order. Line 149 computes
  exactly that (\<open>chain_sources\<close>), but the result never carries it. With the credential
  set and the index loaded, for the role \<^verbatim>\<open>hr_team\<close>: the filtered documents are the two
  HR rows and the handbook, their sorted sources are the handbook and the HR file, and yet
  building the chain raises \<^verbatim>\<open>NameError\<close>, so \<^verbatim>\<open>query_rag\<close> returns no result at all.
\<close>

theorem query_result_sources_not_reported:
  "OPENAI_API_KEY env_ready = Some ''sk-test''
   \<and> vector_store_exists env_ready
   \<and> load_local env_ready = Inr sample_retriever
   \<and> fst (get_filtered_docs sample_retriever \<lparr>question = ''Who is in HR?'', role = ''hr_team''\<rparr>)
       = Inr [doc_hr_row, doc_handbook, doc_hr_row]
   \<and> chain_sources [doc_hr_row, doc_handbook, doc_hr_row]
       = [''resources/data/general/employee_handbook.md'', ''resources/data/hr/hr_data.csv'']
   \<and> lcel_chain sample_retriever (llm env_ready) = Inl (NameError ''StringOutputParser'')
   \<and> query_rag env_ready ''Who is in HR?'' ''hr_team''
       = (Inl (NameError ''StringOutputParser''), [LoadVectorStore, InitLLM])"
proof -
  have e: "OPENAI_API_KEY env_ready = Some ''sk-test'' \<and> vector_store_exists env_ready
           \<and> load_local env_ready = Inr sample_retriever"
    by (simp add: env_ready_def)
  have s: "chain_sources [doc_hr_row, doc_handbook, doc_hr_row]
       = [''resources/data/general/employee_handbook.md'', ''resources/data/hr/hr_data.csv'']"
    by (simp add: chain_sources_def doc_hr_row_def doc_handbook_def)
  have q: "query_rag env_ready ''Who is in HR?'' ''hr_team''
       = (Inl (NameError ''StringOutputParser''), [LoadVectorStore, InitLLM])"
    by (rule query_rag_loaded [where retriever = sample_retriever])
       (simp_all add: env_ready_def py_not_def)
  show ?thesis using e s q by (simp add: sample_filtered_hr lcel_chain_raises)
qed

subsection \<open>\<^verbatim>\<open>query_rag\<close> and the request handler\<close>

lemmas env_defs = env_ready_def env_no_key_def env_no_store_def env_load_fails_def sample_request_def

text \<open>
  Claim C7. Without a credential (\<^verbatim>\<open>OPENAI_API_KEY\<close> unset or empty) \<^verbatim>\<open>query_rag\<close> returns
  the configuration-error dict at once and records no event: the index is not loaded,
  the chat-model client is not constructed and the model is not called.
\<close>

theorem missing_credential_short_circuits:
  assumes "OPENAI_API_KEY env = None \<or> OPENAI_API_KEY env = Some []"
  shows "query_rag env user_query user_role =
           (Inr \<lparr>answer = ''Error: OPENAI_API_KEY environment variable not set. Cannot query the LLM.'',
                 sources = [], error = None\<rparr>, [])"
  using assms by (auto simp add: query_rag_def py_not_def)

theorem missing_credential_short_circuits_witness:
  "(OPENAI_API_KEY env_no_key = None \<or> OPENAI_API_KEY env_no_key = Some [])
   \<and> query_rag env_no_key ''What is the leave policy?'' ''employee_level'' =
           (Inr \<lparr>answer = ''Error: OPENAI_API_KEY environment variable not set. Cannot query the LLM.'',
                 sources = [], error = None\<rparr>, [])"
proof -
  have k: "OPENAI_API_KEY env_no_key = None \<or> OPENAI_API_KEY env_no_key = Some []"
    by (simp add: env_defs)
  from missing_credential_short_circuits [OF k] k show ?thesis by simp
qed

text \<open>
  Claim C4, as stated, fails: with no credential the dict of \<^verbatim>\<open>query_rag\<close> has no
  \<^verbatim>\<open>error\<close> field (the failure is told in \<^verbatim>\<open>answer\<close>), and the handler raises an
  \<^verbatim>\<open>HTTPException\<close>, whose body has no \<^verbatim>\<open>answer\<close>.
\<close>

theorem failure_not_in_error_field_counterexample:
  "OPENAI_API_KEY env_no_key = None
   \<and> fst (query_rag env_no_key ''What is the leave policy?'' ''employee_level'') =
       Inr \<lparr>answer = ''Error: OPENAI_API_KEY environment variable not set. Cannot query the LLM.'',
            sources = [], error = None\<rparr>
   \<and> fst (handle_chat_query env_no_key sample_request) =
       Inl (HTTPException 500 ''Server configuration error: OPENAI_API_KEY not set.'')"
  by (simp add: query_rag_def handle_chat_query_def py_not_def env_defs)

text \<open>
  Claim C4, amended. On a missing credential, a missing index path and an index that
  fails to load, \<^verbatim>\<open>query_rag\<close> returns a dict whose \<^verbatim>\<open>answer\<close> is the explanatory
  message, with no sources and no \<^verbatim>\<open>error\<close> field; the \<^verbatim>\<open>try\<close> block around the chain
  invocation turns an exception of the invocation into such a dict as well. The handler
  answers a missing credential and a missing index path with an \<^verbatim>\<open>HTTPException\<close>;
  every exception it raises has status 500, and every response it returns has no
  \<^verbatim>\<open>error\<close>.
\<close>

theorem failures_become_structured_results:
  "(py_not (OPENAI_API_KEY env) \<longrightarrow>
      fst (query_rag env user_query user_role) =
        Inr \<lparr>answer = ''Error: OPENAI_API_KEY environment variable not set. Cannot query the LLM.'',
             sources = [], error = None\<rparr>
      \<and> fst (handle_chat_query env request) =
        Inl (HTTPException 500 ''Server configuration error: OPENAI_API_KEY not set.''))
   \<and> (\<not> py_not (OPENAI_API_KEY env) \<and> \<not> vector_store_exists env \<longrightarrow>
      fst (query_rag env user_query user_role) =
        Inr \<lparr>answer = ''Error: Vector store not found at vector_store/faiss_index. Please run the ingestion script first.'',
             sources = [], error = None\<rparr>
      \<and> fst (handle_chat_query env request) =
        Inl (HTTPException 500
          ''Server error: Vector store not found at vector_store/faiss_index. Please run ingestion.''))
   \<and> (\<not> py_not (OPENAI_API_KEY env) \<and> vector_store_exists env \<and> load_local env = Inl e \<longrightarrow>
      fst (query_rag env user_query user_role) =
        Inr \<lparr>answer = ''Error loading vector store or embeddings: '' @ str_exn e,
             sources = [], error = None\<rparr>
      \<and> fst (handle_chat_query env request) =
        Inr \<lparr>response_answer = ''Error loading vector store or embeddings: '' @ str_exn e,
             response_sources = [], response_error = None\<rparr>)
   \<and> try_invoke (Inl e) =
        \<lparr>answer = ''An error occurred while processing your request: '' @ str_exn e,
         sources = [], error = None\<rparr>
   \<and> (\<forall>h. fst (handle_chat_query env request) = Inl h \<longrightarrow> status_code h = 500)
   \<and> (\<forall>response. fst (handle_chat_query env request) = Inr response \<longrightarrow>
         response_error response = None)"
proof -
  have a: "py_not (OPENAI_API_KEY env) \<Longrightarrow>
      fst (query_rag env user_query user_role) =
        Inr \<lparr>answer = ''Error: OPENAI_API_KEY environment variable not set. Cannot query the LLM.'',
             sources = [], error = None\<rparr>
      \<and> fst (handle_chat_query env request) =
        Inl (HTTPException 500 ''Server configuration error: OPENAI_API_KEY not set.'')"
    by (simp add: query_rag_def handle_chat_query_def)
  have b: "\<not> py_not (OPENAI_API_KEY env) \<and> \<not> vector_store_exists env \<Longrightarrow>
      fst (query_rag env user_query user_role) =
        Inr \<lparr>answer = ''Error: Vector store not found at vector_store/faiss_index. Please run the ingestion script first.'',
             sources = [], error = None\<rparr>
      \<and> fst (handle_chat_query env request) =
        Inl (HTTPException 500
          ''Server error: Vector store not found at vector_store/faiss_index. Please run ingestion.'')"
    by (simp add: query_rag_def handle_chat_query_def VECTOR_STORE_PATH_def)
  have c: "\<not> py_not (OPENAI_API_KEY env) \<and> vector_store_exists env \<and> load_local env = Inl e \<Longrightarrow>
      fst (query_rag env user_query user_role) =
        Inr \<lparr>answer = ''Error loading vector store or embeddings: '' @ str_exn e,
             sources = [], error = None\<rparr>
      \<and> fst (handle_chat_query env request) =
        Inr \<lparr>response_answer = ''Error loading vector store or embeddings: '' @ str_exn e,
             response_sources = [], response_error = None\<rparr>"
    by (simp add: query_rag_def handle_chat_query_def py_not_def)
  have d: "try_invoke (Inl e) =
        \<lparr>answer = ''An error occurred while processing your request: '' @ str_exn e,
         sources = [], error = None\<rparr>"
    by (simp add: try_invoke_def)
  have f: "fst (handle_chat_query env request) = Inl h \<Longrightarrow> status_code h = 500" for h
    by (auto simp add: handle_chat_query_def split: if_splits prod.splits sum.splits exn.splits)
  have g: "fst (handle_chat_query env request) = Inr response \<Longrightarrow> response_error response = None"
    for response
    by (auto simp add: handle_chat_query_def split: if_splits prod.splits sum.splits exn.splits)
  from a b c d f g show ?thesis by blast
qed

lemma query_rag_env_ready:
  "query_rag env_ready ''What is the leave policy?'' ''employee_level'' =
     (Inl (NameError ''StringOutputParser''), [LoadVectorStore, InitLLM])"
  by (rule query_rag_loaded [where retriever = sample_retriever]) (simp_all add: env_defs py_not_def)

theorem failures_become_structured_results_witness:
  "py_not (OPENAI_API_KEY env_no_key)
   \<and> fst (handle_chat_query env_no_key sample_request) =
        Inl (HTTPException 500 ''Server configuration error: OPENAI_API_KEY not set.'')
   \<and> \<not> py_not (OPENAI_API_KEY env_no_store) \<and> \<not> vector_store_exists env_no_store
   \<and> fst (query_rag env_no_store ''What is the leave policy?'' ''employee_level'') =
        Inr \<lparr>answer = ''Error: Vector store not found at vector_store/faiss_index. Please run the ingestion script first.'',
             sources = [], error = None\<rparr>
   \<and> vector_store_exists env_load_fails
   \<and> load_local env_load_fails = Inl (Exception ''index.faiss is corrupt'')
   \<and> fst (handle_chat_query env_load_fails sample_request) =
        Inr \<lparr>response_answer = ''Error loading vector store or embeddings: index.faiss is corrupt'',
             response_sources = [], response_error = None\<rparr>
   \<and> fst (handle_chat_query env_ready sample_request) =
        Inl (HTTPException 500 ''An unexpected internal error occurred. Please check server logs.'')"
proof -
  have k: "py_not (OPENAI_API_KEY env_no_key)" by (simp add: env_defs py_not_def)
  have s: "\<not> py_not (OPENAI_API_KEY env_no_store) \<and> \<not> vector_store_exists env_no_store"
    by (simp add: env_defs py_not_def)
  have l: "\<not> py_not (OPENAI_API_KEY env_load_fails) \<and> vector_store_exists env_load_fails
            \<and> load_local env_load_fails = Inl (Exception ''index.faiss is corrupt'')"
    by (simp add: env_defs py_not_def)
  have r: "fst (handle_chat_query env_ready sample_request) =
        Inl (HTTPException 500 ''An unexpected internal error occurred. Please check server logs.'')"
    using query_rag_env_ready by (simp add: handle_chat_query_def env_defs py_not_def)
  from failures_become_structured_results
         [of env_no_key "''What is the leave policy?''" "''employee_level''" sample_request]
       failures_become_structured_results
         [of env_no_store "''What is the leave policy?''" "''employee_level''" sample_request]
       failures_become_structured_results
         [of env_load_fails "''What is the leave policy?''" "''employee_level''" sample_request
             "Exception ''index.faiss is corrupt''"]
       failures_become_structured_results
         [of env_ready "''What is the leave policy?''" "''employee_level''" sample_request]
       k s l r
  show ?thesis by simp
qed

subsection \<open>\<^verbatim>\<open>ingest_data\<close>\<close>

text \<open>
  Claim C8, as stated, fails: when no file exists, no document is loaded and
  \<^verbatim>\<open>ingest_data\<close> returns normally; nothing is raised and nothing is saved.
\<close>

theorem ingest_empty_returns_counterexample:
  "concat (map (load_file ingest_env_no_files) ALL_FILES) = []
   \<and> ingest_data ingest_env_no_files = (Inr (), None)"
  by (simp add: ingest_data_def load_file_def ingest_env_no_files_def)

lemma load_file_missing: "\<not> path_exists env p \<Longrightarrow> load_file env p = []"
  by (simp add: load_file_def)

text \<open>
  Claim C8, amended. When no document was loaded (in particular when none of the files
  exists) \<^verbatim>\<open>ingest_data\<close> returns without an error and saves no index; it raises only
  after documents were loaded.
\<close>

theorem ingest_without_documents_returns:
  "(concat (map (load_file env) ALL_FILES) = [] \<longrightarrow> ingest_data env = (Inr (), None))
   \<and> ((\<forall>p\<in>set ALL_FILES. \<not> path_exists env p) \<longrightarrow> ingest_data env = (Inr (), None))
   \<and> (fst (ingest_data env) = Inl e \<longrightarrow> concat (map (load_file env) ALL_FILES) \<noteq> [])"
proof -
  have a: "concat (map (load_file env) ALL_FILES) = [] \<Longrightarrow> ingest_data env = (Inr (), None)"
    by (simp add: ingest_data_def)
  have b: "\<forall>p\<in>set ALL_FILES. \<not> path_exists env p \<Longrightarrow> concat (map (load_file env) ALL_FILES) = []"
    by (simp add: load_file_missing)
  have c: "fst (ingest_data env) = Inl e \<Longrightarrow> concat (map (load_file env) ALL_FILES) \<noteq> []"
    by (auto simp add: ingest_data_def Let_def split: if_splits sum.splits)
  from a b c show ?thesis by blast
qed

lemma load_hr: "load_file ingest_env_build_fails ''resources/data/hr/hr_data.csv'' =
   [\<lparr>page_content = ''orphan'', metadata = \<lparr>source = Some ''resources/data/hr/hr_data.csv'', row = Some 1\<rparr>\<rparr>,
    \<lparr>page_content = ''orphan'', metadata = \<lparr>source = Some ''resources/data/hr/hr_data.csv'', row = Some 2\<rparr>\<rparr>]"
  by (simp add: load_file_def ingest_env_build_fails_def suffix_to_prefix sublist_code enumerate_eq_zip doc_no_source_def)

lemma build_fails: "ingest_data ingest_env_build_fails = (Inl (Exception ''embedding model unavailable''), None)"
  by (simp add: ingest_data_def ALL_FILES_value load_hr Let_def) (simp add: ingest_env_build_fails_def)

theorem ingest_without_documents_returns_witness:
  "filter (path_exists ingest_env_no_files) ALL_FILES = []
   \<and> concat (map (load_file ingest_env_no_files) ALL_FILES) = []
   \<and> ingest_data ingest_env_no_files = (Inr (), None)
   \<and> fst (ingest_data ingest_env_build_fails) = Inl (Exception ''embedding model unavailable'')
   \<and> concat (map (load_file ingest_env_build_fails) ALL_FILES) \<noteq> []"
proof -
  have a: "\<forall>p\<in>set ALL_FILES. \<not> path_exists ingest_env_no_files p"
    by (simp add: ingest_env_no_files_def)
  have b: "fst (ingest_data ingest_env_build_fails) = Inl (Exception ''embedding model unavailable'')"
    by (simp add: build_fails)
  from ingest_without_documents_returns [of ingest_env_no_files]
       ingest_without_documents_returns [of ingest_env_build_fails "Exception ''embedding model unavailable''"]
       a b
  show ?thesis by (simp add: load_file_missing)
qed

end
